theory Spec2Isabelle
  imports Complex_Main "HOL-Library.Sublist"
begin

section \<open>The account-settings page: data model\<close>

text \<open>
  The page is \<^verbatim>\<open>src/pages/settings.tsx\<close>. A JavaScript string is modelled as a
  \<^typ>\<open>string\<close>, the list of its code units, so that \<^term>\<open>length s\<close> is the
  source's \<^verbatim>\<open>s.length\<close>.

  \<^verbatim>\<open>type Inputs = { name: string; description: string; image: string }\<close>.
  The field \<^verbatim>\<open>image\<close> is called \<open>image_url\<close> here, the name \<open>image\<close> being taken
  by the image of a set. The user record and the object sent to the update endpoint
  both carry the three inputs, so they extend the record.
\<close>

record inputs =
  name :: string
  description :: string
  image_url :: string

record user = inputs +
  email :: string

text \<open>\<^verbatim>\<open>{ ...data, setupCompleted: true }\<close>\<close>

record payload = inputs +
  setupCompleted :: bool

text \<open>
  A \<^verbatim>\<open>File\<close> of the browser: the code reads \<^verbatim>\<open>file.type\<close> and
  \<^verbatim>\<open>file.size\<close> (a byte count, never negative).
\<close>

record File =
  file_name :: string
  file_type :: string
  file_size :: nat

text \<open>
  The form's \<^verbatim>\<open>errors\<close> object maps a field name to its error, when it has one.
  An error with the empty message is still an object, hence truthy.
\<close>

datatype field = Name | Description | Image

datatype field_error = FieldError (message: string)

text \<open>What a submission does to the outside world, in the order it does it.\<close>

datatype effect =
    CallGetPresignedUrl
  | CallFetchPut string string File
  | CallUpdateUser payload
  | ToastError string
  | ToastSuccess string

text \<open>
  The state of one rendered page: the form state kept by \<^verbatim>\<open>useForm\<close>
  (\<open>formValues\<close>, \<open>errors\<close>, \<open>isSubmitting\<close>, \<open>isSubmitted\<close>), the
  \<^verbatim>\<open>useState\<close> cell \<open>selectedFile\<close>, the effects emitted so far, and a count of
  the submissions that were started and have not settled yet.
\<close>

record page =
  formValues :: inputs
  errors :: "field \<Rightarrow> field_error option"
  isSubmitting :: bool
  isSubmitted :: bool
  selectedFile :: "File option"
  trace :: "effect list"
  outstanding :: nat

text \<open>
  An awaited promise either rejects (the \<^verbatim>\<open>await\<close> throws) or is fulfilled with a
  value. \<^verbatim>\<open>getPresignedUrl()\<close> is fulfilled with \<^verbatim>\<open>{url, key}\<close>;
  \<^verbatim>\<open>fetch\<close> is fulfilled with a \<^verbatim>\<open>Response\<close>, whatever its HTTP status, and
  rejects only when no response was obtained; \<^verbatim>\<open>updateUser\<close> is fulfilled or rejects.
\<close>

datatype 'a settled = Rejected | Fulfilled 'a

record ticket =
  url :: string
  key :: string

record response =
  status :: nat

record network =
  getPresignedUrl :: "ticket settled"
  fetch :: "string \<Rightarrow> string \<Rightarrow> File \<Rightarrow> response settled"
  updateUser :: "payload \<Rightarrow> unit settled"

text \<open>
  What the page takes from its surroundings: \<^verbatim>\<open>env.NEXT_PUBLIC_BUCKET_URL\<close>, and the
  test behind zod's \<^verbatim>\<open>.url()\<close> (whether \<^verbatim>\<open>new URL(s)\<close> accepts the string).
\<close>

record env =
  NEXT_PUBLIC_BUCKET_URL :: string
  isUrl :: "string \<Rightarrow> bool"

section \<open>Library functions the page calls\<close>

text \<open>
  \<^verbatim>\<open>String.prototype.indexOf(p)\<close>: the index of the first occurrence of \<open>p\<close>, or
  \<open>-1\<close>.
\<close>

fun indexOf_from :: "string \<Rightarrow> string \<Rightarrow> nat \<Rightarrow> int" where
  "indexOf_from [] p i = (if p = [] then int i else - 1)"
| "indexOf_from (c # s) p i =
     (if take (length p) (c # s) = p then int i else indexOf_from s p (Suc i))"

definition indexOf :: "string \<Rightarrow> string \<Rightarrow> int" where
  "indexOf s p = indexOf_from s p 0"

text \<open>\<^verbatim>\<open>setError(f, { message: m })\<close> and \<^verbatim>\<open>clearErrors(f)\<close> of react-hook-form.\<close>

definition setError :: "field \<Rightarrow> string \<Rightarrow> page \<Rightarrow> page" where
  "setError f m st = st\<lparr>errors := (errors st)(f \<mapsto> FieldError m)\<rparr>"

definition clearErrors :: "field \<Rightarrow> page \<Rightarrow> page" where
  "clearErrors f st = st\<lparr>errors := (errors st)(f := None)\<rparr>"

definition emit :: "effect \<Rightarrow> page \<Rightarrow> page" where
  "emit x st = st\<lparr>trace := trace st @ [x]\<rparr>"

text \<open>
  The zod schema of the resolver. A string schema runs all its checks in order and
  collects one issue for each check that fails; \<^verbatim>\<open>zodResolver\<close> keeps, for each field,
  the first issue.
  \<^verbatim>\<open>
  z.object({
    name: z.string().min(1, { message: "Username is required." })
                    .max(13, { message: "Username must be 13 characters or less." }),
    description: z.string(),
    image: z.string().url(),
  })
  \<close>
\<close>

datatype zcheck = ZMin nat string | ZMax nat string | ZUrl

fun run_check :: "(string \<Rightarrow> bool) \<Rightarrow> string \<Rightarrow> zcheck \<Rightarrow> string option" where
  "run_check u s (ZMin n m) = (if length s < n then Some m else None)"
| "run_check u s (ZMax n m) = (if length s > n then Some m else None)"
| "run_check u s ZUrl = (if u s then None else Some ''Invalid url'')"

definition issues :: "(string \<Rightarrow> bool) \<Rightarrow> zcheck list \<Rightarrow> string \<Rightarrow> string list" where
  "issues u cs s = List.map_filter (run_check u s) cs"

fun schema :: "field \<Rightarrow> zcheck list" where
  "schema Name =
     [ZMin 1 ''Username is required.'', ZMax 13 ''Username must be 13 characters or less.'']"
| "schema Description = []"
| "schema Image = [ZUrl]"

fun field_value :: "field \<Rightarrow> inputs \<Rightarrow> string" where
  "field_value Name d = name d"
| "field_value Description d = description d"
| "field_value Image d = image_url d"

definition resolver :: "(string \<Rightarrow> bool) \<Rightarrow> inputs \<Rightarrow> field \<Rightarrow> field_error option" where
  "resolver u d f =
     (case issues u (schema f) (field_value f d) of
        [] \<Rightarrow> None
      | m # _ \<Rightarrow> Some (FieldError m))"

definition no_errors :: "(field \<Rightarrow> field_error option) \<Rightarrow> bool" where
  "no_errors es = (es Name = None \<and> es Description = None \<and> es Image = None)"

section \<open>The page\<close>

text \<open>
  \<^verbatim>\<open>useForm({ defaultValues: { name: user.name, description: user.description,
  image: user.image }, resolver })\<close> and \<^verbatim>\<open>useState(undefined)\<close>: the page as first
  rendered.
\<close>

definition useForm :: "user \<Rightarrow> page" where
  "useForm u =
     \<lparr>formValues = \<lparr>name = name u, description = description u, image_url = image_url u\<rparr>,
      errors = (\<lambda>f. None), isSubmitting = False, isSubmitted = False,
      selectedFile = None, trace = [], outstanding = 0\<rparr>"

text \<open>
  \<^verbatim>\<open>
  const handleFileSelect = (event) => {
    const file = event?.target?.files?.[0];
    clearErrors("image");
    if (file && file.size) {
      if (file.type.indexOf("image") === -1)
        setError("image", { message: "Only images are allowed." });
      else if (file.size / 1024 > 5120)
        setError("image", { message: "Maximum file size is 5MB." });
      else setSelectedFile(file);
    }
  };
  \<close>
  The argument is \<^verbatim>\<open>event?.target?.files?.[0]\<close>, \<open>None\<close> when it is undefined.
  \<^verbatim>\<open>file.size / 1024\<close> is a division of numbers, not of integers: it is taken in
  the reals (dividing a byte count by a power of two loses nothing in a double).
\<close>

definition handleFileSelect :: "File option \<Rightarrow> page \<Rightarrow> page" where
  "handleFileSelect file_opt st =
     (let st1 = clearErrors Image st in
      case file_opt of
        None \<Rightarrow> st1
      | Some f \<Rightarrow>
          if file_size f \<noteq> 0 then
            if indexOf (file_type f) ''image'' = - 1 then
              setError Image ''Only images are allowed.'' st1
            else if real (file_size f) / 1024 > 5120 then
              setError Image ''Maximum file size is 5MB.'' st1
            else st1\<lparr>selectedFile := Some f\<rparr>
          else st1)"

text \<open>
  The second half of \<^verbatim>\<open>onSubmit\<close>:
  \<^verbatim>\<open>
  try {
    await updateUser({ ...data, setupCompleted: true });
    toast.success("Account settings saved!", ...);
  } catch {
    toast.error("Something went wrong!", ...);
  }
  \<close>
\<close>

definition to_payload :: "inputs \<Rightarrow> payload" where
  "to_payload d =
     \<lparr>name = name d, description = description d, image_url = image_url d,
      setupCompleted = True\<rparr>"

definition update_call :: "network \<Rightarrow> inputs \<Rightarrow> page \<Rightarrow> page" where
  "update_call net d st =
     (let st1 = emit (CallUpdateUser (to_payload d)) st in
      case updateUser net (to_payload d) of
        Fulfilled _ \<Rightarrow> emit (ToastSuccess ''Account settings saved!'') st1
      | Rejected \<Rightarrow> emit (ToastError ''Something went wrong!'') st1)"

text \<open>
  The \<^verbatim>\<open>catch\<close> block of the upload:
  \<^verbatim>\<open>setError("image", { message: "" }); toast.error("Couldn't upload your file.", ...); return;\<close>
\<close>

definition upload_failed :: "page \<Rightarrow> page" where
  "upload_failed st = emit (ToastError ''Couldn't upload your file.'') (setError Image '''' st)"

text \<open>
  \<^verbatim>\<open>
  const onSubmit = async (data) => {
    if (selectedFile) {
      try {
        const { url, key } = await getPresignedUrl();
        await fetch(url, { method: "PUT",
                           headers: { "Content-Type": selectedFile.type },
                           body: selectedFile });
        data.image = `${env.NEXT_PUBLIC_BUCKET_URL}/${key}`;
      } catch { ...; return; }
    }
    ...
  };
  \<close>
  The value that \<^verbatim>\<open>await fetch(...)\<close> yields is dropped: only a rejection reaches the
  \<^verbatim>\<open>catch\<close>.
\<close>

definition onSubmit :: "env \<Rightarrow> network \<Rightarrow> inputs \<Rightarrow> page \<Rightarrow> page" where
  "onSubmit cfg net d st =
     (case selectedFile st of
        None \<Rightarrow> update_call net d st
      | Some f \<Rightarrow>
          (case getPresignedUrl net of
             Rejected \<Rightarrow> upload_failed (emit CallGetPresignedUrl st)
           | Fulfilled t \<Rightarrow>
               (case fetch net (url t) (file_type f) f of
                  Rejected \<Rightarrow>
                    upload_failed
                      (emit (CallFetchPut (url t) (file_type f) f) (emit CallGetPresignedUrl st))
                | Fulfilled r \<Rightarrow>
                    update_call net
                      (d\<lparr>image_url := NEXT_PUBLIC_BUCKET_URL cfg @ ''/'' @ key t\<rparr>)
                      (emit (CallFetchPut (url t) (file_type f) f)
                         (emit CallGetPresignedUrl st)))))"

text \<open>
  \<^verbatim>\<open>
  const thereAreErrors = () => {
    if (errors.description || errors.image || errors.name) return true;
    return false;
  };
  \<close>
  and the submit control's \<^verbatim>\<open>disabled={formState.isSubmitting || thereAreErrors()}\<close>.
\<close>

definition thereAreErrors :: "page \<Rightarrow> bool" where
  "thereAreErrors st =
     (if errors st Description \<noteq> None \<or> errors st Image \<noteq> None \<or> errors st Name \<noteq> None
      then True else False)"

definition submit_disabled :: "page \<Rightarrow> bool" where
  "submit_disabled st = (isSubmitting st \<or> thereAreErrors st)"

text \<open>The text and file inputs carry \<^verbatim>\<open>disabled={formState.isSubmitting}\<close>.\<close>

definition input_disabled :: "page \<Rightarrow> bool" where
  "input_disabled st = isSubmitting st"

text \<open>
  \<^verbatim>\<open>handleSubmit(onSubmit)\<close> of react-hook-form, from the moment the submission has
  been marked as in flight: the resolver is run on the form values and its errors
  replace the form's; \<open>onSubmit\<close> is called with the parsed values only when there is no
  error; at the end the form is marked submitted and no longer submitting.
\<close>

definition handleSubmit :: "env \<Rightarrow> network \<Rightarrow> page \<Rightarrow> page" where
  "handleSubmit cfg net st =
     (let es = resolver (isUrl cfg) (formValues st);
          st1 = st\<lparr>errors := es\<rparr>;
          st2 = (if no_errors es then onSubmit cfg net (formValues st) st1 else st1)
      in st2\<lparr>isSubmitted := True, isSubmitting := False, outstanding := outstanding st2 - 1\<rparr>)"

text \<open>
  What can happen to a rendered page. A disabled control does not react. The two text
  inputs are registered with the form (\<^verbatim>\<open>{...register("name")}\<close>): a change stores the
  value and, once the form has been submitted, validates that field again (the default
  \<^verbatim>\<open>reValidateMode\<close>). No control is registered for \<^verbatim>\<open>image\<close>. \<open>Submit\<close> starts
  a submission and \<open>Settle\<close> is the moment an outstanding one finishes, with the answers
  the network gave to it.
\<close>

datatype event =
    ChangeName string
  | ChangeDescription string
  | SelectFile "File option"
  | Submit
  | Settle network

definition revalidate :: "env \<Rightarrow> field \<Rightarrow> page \<Rightarrow> page" where
  "revalidate cfg f st =
     (if isSubmitted st
      then st\<lparr>errors := (errors st)(f := resolver (isUrl cfg) (formValues st) f)\<rparr>
      else st)"

fun fire :: "env \<Rightarrow> event \<Rightarrow> page \<Rightarrow> page" where
  "fire cfg (ChangeName s) st =
     (if input_disabled st then st
      else revalidate cfg Name (st\<lparr>formValues := (formValues st)\<lparr>name := s\<rparr>\<rparr>))"
| "fire cfg (ChangeDescription s) st =
     (if input_disabled st then st
      else revalidate cfg Description (st\<lparr>formValues := (formValues st)\<lparr>description := s\<rparr>\<rparr>))"
| "fire cfg (SelectFile file_opt) st =
     (if input_disabled st then st else handleFileSelect file_opt st)"
| "fire cfg Submit st =
     (if submit_disabled st then st
      else st\<lparr>isSubmitting := True, outstanding := Suc (outstanding st)\<rparr>)"
| "fire cfg (Settle net) st =
     (if outstanding st = 0 then st else handleSubmit cfg net st)"

definition run :: "env \<Rightarrow> event list \<Rightarrow> page \<Rightarrow> page" where
  "run cfg evs st = foldl (\<lambda>s ev. fire cfg ev s) st evs"

text \<open>The file-select check, as one predicate: what a staged file has passed.\<close>

definition accepted :: "File \<Rightarrow> bool" where
  "accepted f =
     (file_size f \<noteq> 0 \<and> indexOf (file_type f) ''image'' \<noteq> - 1
      \<and> \<not> real (file_size f) / 1024 > 5120)"

text \<open>
  A failed upload, seen from the network: the ticket request rejects, or the PUT rejects,
  or the PUT is answered with a status outside \<open>200..299\<close> (\<^verbatim>\<open>Response.ok\<close> is false).
\<close>

definition response_ok :: "response \<Rightarrow> bool" where
  "response_ok r = (200 \<le> status r \<and> status r \<le> 299)"

fun put_failed :: "response settled \<Rightarrow> bool" where
  "put_failed Rejected = True"
| "put_failed (Fulfilled r) = (\<not> response_ok r)"

definition update_calls :: "effect list \<Rightarrow> payload list" where
  "update_calls xs = List.map_filter (\<lambda>x. case x of CallUpdateUser p \<Rightarrow> Some p | _ \<Rightarrow> None) xs"

section \<open>Auxiliary notions\<close>

text \<open>
  The effects a step has added to the trace.
\<close>

definition emitted :: "page \<Rightarrow> page \<Rightarrow> effect list" where
  "emitted st st' = drop (length (trace st)) (trace st')"

text \<open>
  The notification that follows the update call.
\<close>

definition toast_of :: "network \<Rightarrow> inputs \<Rightarrow> effect" where
  "toast_of net d =
     (case updateUser net (to_payload d) of
        Fulfilled _ \<Rightarrow> ToastSuccess ''Account settings saved!''
      | Rejected \<Rightarrow> ToastError ''Something went wrong!'')"

text \<open>
  What is staged has passed the file-select check.
\<close>

definition staged_ok :: "page \<Rightarrow> bool" where
  "staged_ok st = (case selectedFile st of None \<Rightarrow> True | Some f \<Rightarrow> accepted f)"

text \<open>
  The flag \<open>isSubmitting\<close> tells whether a submission is outstanding, and there is
  at most one.
\<close>

definition sane :: "page \<Rightarrow> bool" where
  "sane st = (outstanding st = (if isSubmitting st then 1 else 0))"

text \<open>
  A page on which a submission without a file can start and will pass validation.
\<close>

definition ready :: "env \<Rightarrow> page \<Rightarrow> bool" where
  "ready cfg st =
     (selectedFile st = None \<and> no_errors (resolver (isUrl cfg) (formValues st))
      \<and> \<not> submit_disabled st \<and> outstanding st = 0)"

text \<open>
  The scenarios of the specification: a user, a valid 2 MB JPEG, a configuration, a
  network on which every request succeeds, and one whose storage answers the PUT with
  403 (an expired ticket, say).
\<close>

definition alice :: user where
  "alice = \<lparr>name = ''Alice'', description = ''Hi'', image_url = ''https://cdn/alice.png'',
            email = ''alice@example.org''\<rparr>"

definition jpeg_2mb :: File where
  "jpeg_2mb = \<lparr>file_name = ''me.jpg'', file_type = ''image/jpeg'', file_size = 2097152\<rparr>"

definition config :: env where
  "config = \<lparr>NEXT_PUBLIC_BUCKET_URL = ''https://bucket'', isUrl = (\<lambda>s. take 8 s = ''https://'')\<rparr>"

definition all_well :: network where
  "all_well =
     \<lparr>getPresignedUrl = Fulfilled \<lparr>url = ''https://s3/put'', key = ''k1''\<rparr>,
      fetch = (\<lambda>u c f. Fulfilled \<lparr>status = 200\<rparr>),
      updateUser = (\<lambda>p. Fulfilled ())\<rparr>"

definition storage_refuses :: network where
  "storage_refuses =
     \<lparr>getPresignedUrl = Fulfilled \<lparr>url = ''https://s3/put'', key = ''k1''\<rparr>,
      fetch = (\<lambda>u c f. Fulfilled \<lparr>status = 403\<rparr>),
      updateUser = (\<lambda>p. Fulfilled ())\<rparr>"

section \<open>The session gate\<close>

text \<open>
  The result of \<^verbatim>\<open>getServerSideProps\<close>: \<^verbatim>\<open>{ redirect: { destination, permanent } }\<close>
  or \<^verbatim>\<open>{ props: { user } }\<close>.
\<close>

datatype 'u gssp_result = Redirect string bool | Props 'u

text \<open>
  \<^verbatim>\<open>
  const getServerAuthSession = async (ctx) => {
    return await getServerSession(ctx.req, ctx.res, authOptions);
  };
  \<close>
  \<^verbatim>\<open>getServerSession\<close> is next-auth's; it is a parameter, with \<open>None\<close> for no session.
\<close>

definition getServerAuthSession ::
  "('req \<Rightarrow> 'res \<Rightarrow> 'session option) \<Rightarrow> 'req \<times> 'res \<Rightarrow> 'session option" where
  "getServerAuthSession getServerSession ctx = getServerSession (fst ctx) (snd ctx)"

text \<open>
  Modelled from the spec: \<^verbatim>\<open>utils/auth-required\<close> is missing from the sources. The spec
  says of it: given a request/response context, resolve the caller's session; if absent,
  produce a redirect instruction to an external login destination (no page render); if
  present, fetch the full user record and pass it as the page's input property.
\<close>

definition authRequired ::
  "('req \<Rightarrow> 'res \<Rightarrow> 'session option) \<Rightarrow> ('session \<Rightarrow> user) \<Rightarrow> string \<Rightarrow> 'req \<times> 'res
     \<Rightarrow> user gssp_result" where
  "authRequired getServerSession fetchUser login ctx =
     (case getServerAuthSession getServerSession ctx of
        None \<Rightarrow> Redirect login False
      | Some s \<Rightarrow> Props (fetchUser s))"

text \<open>
  \<^verbatim>\<open>
  export const getServerSideProps = async (context) => {
    return await authRequired(context);
  };
  \<close>
\<close>

definition getServerSideProps ::
  "('req \<Rightarrow> 'res \<Rightarrow> 'session option) \<Rightarrow> ('session \<Rightarrow> user) \<Rightarrow> string \<Rightarrow> 'req \<times> 'res
     \<Rightarrow> user gssp_result" where
  "getServerSideProps getServerSession fetchUser login context =
     authRequired getServerSession fetchUser login context"

text \<open>
  The other version of the page calls \<^verbatim>\<open>useAuth\<close> instead:
  \<^verbatim>\<open>
  const { redirectDestination, user } = await useAuth(context);
  if (redirectDestination)
    return { redirect: { destination: redirectDestination, permanent: false } };
  return { props: { user } };
  \<close>
  An empty string is falsy, as \<^verbatim>\<open>undefined\<close> is.

  Modelled from the spec: \<^verbatim>\<open>utils/useAuth\<close> is missing from the sources too; it is
  given the same contract (no session: a redirect destination and no user).
\<close>

record auth =
  redirectDestination :: "string option"
  auth_user :: "user option"

definition useAuth ::
  "('req \<Rightarrow> 'res \<Rightarrow> 'session option) \<Rightarrow> ('session \<Rightarrow> user) \<Rightarrow> string \<Rightarrow> 'req \<times> 'res
     \<Rightarrow> auth" where
  "useAuth getServerSession fetchUser login ctx =
     (case getServerAuthSession getServerSession ctx of
        None \<Rightarrow> \<lparr>redirectDestination = Some login, auth_user = None\<rparr>
      | Some s \<Rightarrow> \<lparr>redirectDestination = None, auth_user = Some (fetchUser s)\<rparr>)"

definition getServerSideProps_useAuth ::
  "('req \<Rightarrow> 'res \<Rightarrow> 'session option) \<Rightarrow> ('session \<Rightarrow> user) \<Rightarrow> string \<Rightarrow> 'req \<times> 'res
     \<Rightarrow> user option gssp_result" where
  "getServerSideProps_useAuth getServerSession fetchUser login context =
     (let a = useAuth getServerSession fetchUser login context in
      case redirectDestination a of
        None \<Rightarrow> Props (auth_user a)
      | Some d \<Rightarrow> if d \<noteq> [] then Redirect d False else Props (auth_user a))"

section \<open>Properties of the library functions\<close>

text \<open>
  \<open>indexOf\<close> answers \<open>-1\<close> exactly when the pattern occurs nowhere in the string:
  "the MIME type does not contain image" is \<^term>\<open>\<not> sublist ''image'' (file_type f)\<close>.
\<close>

lemma indexOf_from_miss: "indexOf_from s p i = - 1 \<longleftrightarrow> \<not> sublist p s"
proof (induction s p i rule: indexOf_from.induct)
  case (1 p i)
  then show ?case by auto
next
  case (2 c s p i)
  show ?case
  proof (cases "take (length p) (c # s) = p")
    case True
    then have "prefix p (c # s)" by (metis take_is_prefix)
    then have "sublist p (c # s)" by (rule prefix_imp_sublist)
    with True show ?thesis by simp
  next
    case False
    then have np: "\<not> prefix p (c # s)" by (auto simp: prefix_def)
    have "sublist p (c # s) \<longleftrightarrow> prefix p (c # s) \<or> sublist p s"
      by (rule sublist_Cons_right)
    with np False 2 show ?thesis by simp
  qed
qed

lemma indexOf_miss: "indexOf s p = - 1 \<longleftrightarrow> \<not> sublist p s"
  by (simp add: indexOf_def indexOf_from_miss)

text \<open>Dividing by 1024 and comparing with 5120 is comparing the byte count with 5242880.\<close>

lemma size_check: "(real n / 1024 > 5120) \<longleftrightarrow> n > 5242880"
  by (simp add: field_simps)

section \<open>The file-select handler\<close>

lemma handleFileSelect_None: "handleFileSelect None st = clearErrors Image st"
  by (simp add: handleFileSelect_def)

lemma handleFileSelect_empty:
  "file_size f = 0 \<Longrightarrow> handleFileSelect (Some f) st = clearErrors Image st"
  by (simp add: handleFileSelect_def)

lemma handleFileSelect_not_image:
  "file_size f \<noteq> 0 \<Longrightarrow> \<not> sublist ''image'' (file_type f) \<Longrightarrow>
   handleFileSelect (Some f) st = setError Image ''Only images are allowed.'' (clearErrors Image st)"
  by (simp add: handleFileSelect_def indexOf_miss)

lemma handleFileSelect_too_big:
  "sublist ''image'' (file_type f) \<Longrightarrow> 5242880 < file_size f \<Longrightarrow>
   handleFileSelect (Some f) st = setError Image ''Maximum file size is 5MB.'' (clearErrors Image st)"
  by (simp add: handleFileSelect_def indexOf_miss size_check)

lemma handleFileSelect_staged:
  "sublist ''image'' (file_type f) \<Longrightarrow> 0 < file_size f \<Longrightarrow> file_size f \<le> 5242880 \<Longrightarrow>
   handleFileSelect (Some f) st = (clearErrors Image st)\<lparr>selectedFile := Some f\<rparr>"
  by (simp add: handleFileSelect_def indexOf_miss size_check)

lemma accepted_iff:
  "accepted f \<longleftrightarrow> sublist ''image'' (file_type f) \<and> 0 < file_size f \<and> file_size f \<le> 5242880"
  by (auto simp: accepted_def indexOf_miss size_check)

lemma handleFileSelect_cases:
  "handleFileSelect file_opt st =
     (case file_opt of
        None \<Rightarrow> clearErrors Image st
      | Some f \<Rightarrow>
          if file_size f = 0 then clearErrors Image st
          else if \<not> sublist ''image'' (file_type f)
            then setError Image ''Only images are allowed.'' (clearErrors Image st)
          else if 5242880 < file_size f
            then setError Image ''Maximum file size is 5MB.'' (clearErrors Image st)
          else (clearErrors Image st)\<lparr>selectedFile := Some f\<rparr>)"
  by (simp add: handleFileSelect_def indexOf_miss size_check split: option.split)

subsection \<open>Only accepted files are ever staged\<close>

lemma selectedFile_setError [simp]: "selectedFile (setError f m st) = selectedFile st"
  by (simp add: setError_def)

lemma selectedFile_clearErrors [simp]: "selectedFile (clearErrors f st) = selectedFile st"
  by (simp add: clearErrors_def)

lemma selectedFile_emit [simp]: "selectedFile (emit x st) = selectedFile st"
  by (simp add: emit_def)

lemma selectedFile_update_call [simp]: "selectedFile (update_call net d st) = selectedFile st"
  by (simp add: update_call_def Let_def split: settled.split)

lemma selectedFile_upload_failed [simp]: "selectedFile (upload_failed st) = selectedFile st"
  by (simp add: upload_failed_def)

lemma selectedFile_onSubmit [simp]: "selectedFile (onSubmit cfg net d st) = selectedFile st"
  by (simp add: onSubmit_def split: option.split settled.split)

lemma selectedFile_handleSubmit [simp]: "selectedFile (handleSubmit cfg net st) = selectedFile st"
  by (simp add: handleSubmit_def Let_def)

lemma selectedFile_revalidate [simp]: "selectedFile (revalidate cfg f st) = selectedFile st"
  by (simp add: revalidate_def)

lemma staged_ok_handleFileSelect: "staged_ok st \<Longrightarrow> staged_ok (handleFileSelect file_opt st)"
  by (auto simp: handleFileSelect_cases staged_ok_def accepted_iff split: option.splits)

lemma staged_ok_fire: "staged_ok st \<Longrightarrow> staged_ok (fire cfg ev st)"
  by (cases ev) (auto simp: staged_ok_handleFileSelect, auto simp: staged_ok_def)

lemma staged_ok_run: "staged_ok st \<Longrightarrow> staged_ok (run cfg evs st)"
  unfolding run_def by (induction evs arbitrary: st) (simp_all add: staged_ok_fire)

lemma staged_ok_useForm: "staged_ok (useForm u)"
  by (simp add: staged_ok_def useForm_def)

lemma reachable_staged: "selectedFile (run cfg evs (useForm u)) = Some f \<Longrightarrow> accepted f"
  using staged_ok_run [OF staged_ok_useForm, of cfg evs u] by (simp add: staged_ok_def)

text \<open>
  C6, as amended. For every selected file of non-zero size whose MIME type does not
  contain "image", the file-select handler sets the image-field error "Only images are
  allowed." and leaves \<open>selectedFile\<close> as it was; and on a page reached from the first
  render, \<open>selectedFile\<close> is not that file afterwards.
\<close>

theorem non_image_rejected:
  "file_size f \<noteq> 0 \<Longrightarrow> \<not> sublist ''image'' (file_type f) \<Longrightarrow>
     errors (handleFileSelect (Some f) st) Image = Some (FieldError ''Only images are allowed.'')
     \<and> selectedFile (handleFileSelect (Some f) st) = selectedFile st
     \<and> selectedFile (handleFileSelect (Some f) (run cfg evs (useForm u))) \<noteq> Some f"
proof -
  assume nz: "file_size f \<noteq> 0" and ni: "\<not> sublist ''image'' (file_type f)"
  have "\<not> accepted f" using ni by (simp add: accepted_iff)
  then have "selectedFile (run cfg evs (useForm u)) \<noteq> Some f"
    using reachable_staged by blast
  then show ?thesis
    by (simp add: handleFileSelect_not_image [OF nz ni] setError_def)
qed

theorem non_image_rejected_witness:
  "file_size \<lparr>file_name = ''notes.txt'', file_type = ''text/plain'', file_size = 12\<rparr> \<noteq> 0
   \<and> \<not> sublist ''image'' (file_type \<lparr>file_name = ''notes.txt'', file_type = ''text/plain'', file_size = 12\<rparr>)
   \<and> errors (handleFileSelect
        (Some \<lparr>file_name = ''notes.txt'', file_type = ''text/plain'', file_size = 12\<rparr>)
        (useForm alice)) Image = Some (FieldError ''Only images are allowed.'')
   \<and> selectedFile (handleFileSelect
        (Some \<lparr>file_name = ''notes.txt'', file_type = ''text/plain'', file_size = 12\<rparr>)
        (useForm alice)) = selectedFile (useForm alice)"
proof -
  have a: "file_size \<lparr>file_name = ''notes.txt'', file_type = ''text/plain'', file_size = 12\<rparr> \<noteq> 0"
    by simp
  have "indexOf ''text/plain'' ''image'' = - 1" by (simp add: indexOf_def)
  then have b: "\<not> sublist ''image''
      (file_type \<lparr>file_name = ''notes.txt'', file_type = ''text/plain'', file_size = 12\<rparr>)"
    by (simp add: indexOf_miss)
  from non_image_rejected [OF a b, of "useForm alice"] a b show ?thesis by blast
qed

text \<open>
  C6 as first stated, for every file whose MIME type does not contain "image", fails on
  an empty file: the guard \<^verbatim>\<open>if (file && file.size)\<close> skips both checks, and no error
  is set.
\<close>

theorem non_image_counterexample:
  "\<not> sublist ''image'' (file_type \<lparr>file_name = ''empty.txt'', file_type = ''text/plain'', file_size = 0\<rparr>)
   \<and> errors (handleFileSelect
        (Some \<lparr>file_name = ''empty.txt'', file_type = ''text/plain'', file_size = 0\<rparr>)
        (useForm alice)) Image \<noteq> Some (FieldError ''Only images are allowed.'')"
proof -
  have "indexOf ''text/plain'' ''image'' = - 1" by (simp add: indexOf_def)
  then have "\<not> sublist ''image'' ''text/plain''" by (simp add: indexOf_miss)
  then show ?thesis by (simp add: handleFileSelect_def clearErrors_def)
qed

text \<open>
  C7. For every selected file whose MIME type contains "image": the test
  \<^verbatim>\<open>size / 1024 > 5120\<close> is the test that the size in bytes exceeds \<open>5120 * 1024\<close>;
  a file over that size gets the image-field error "Maximum file size is 5MB." and is not
  staged; a file of size in \<open>(0, 5120 * 1024]\<close> is staged and the image field has no
  error.
\<close>

theorem size_limit:
  "sublist ''image'' (file_type f) \<Longrightarrow>
     (real (file_size f) / 1024 > 5120 \<longleftrightarrow> file_size f > 5120 * 1024)
     \<and> (file_size f > 5120 * 1024 \<longrightarrow>
          errors (handleFileSelect (Some f) st) Image = Some (FieldError ''Maximum file size is 5MB.'')
          \<and> selectedFile (handleFileSelect (Some f) st) = selectedFile st
          \<and> selectedFile (handleFileSelect (Some f) (run cfg evs (useForm u))) \<noteq> Some f)
     \<and> (0 < file_size f \<and> file_size f \<le> 5120 * 1024 \<longrightarrow>
          selectedFile (handleFileSelect (Some f) st) = Some f
          \<and> errors (handleFileSelect (Some f) st) Image = None)"
proof -
  assume im: "sublist ''image'' (file_type f)"
  have a: "real (file_size f) / 1024 > 5120 \<longleftrightarrow> file_size f > 5120 * 1024"
    by (simp add: size_check)
  have b: "errors (handleFileSelect (Some f) st) Image = Some (FieldError ''Maximum file size is 5MB.'')
          \<and> selectedFile (handleFileSelect (Some f) st) = selectedFile st
          \<and> selectedFile (handleFileSelect (Some f) (run cfg evs (useForm u))) \<noteq> Some f"
    if big: "file_size f > 5120 * 1024"
  proof -
    from big have big': "5242880 < file_size f" by simp
    then have "\<not> accepted f" by (simp add: accepted_iff)
    then have "selectedFile (run cfg evs (useForm u)) \<noteq> Some f"
      using reachable_staged by blast
    then show ?thesis
      by (simp add: handleFileSelect_too_big [OF im big'] setError_def)
  qed
  have c: "selectedFile (handleFileSelect (Some f) st) = Some f
          \<and> errors (handleFileSelect (Some f) st) Image = None"
    if ok: "0 < file_size f \<and> file_size f \<le> 5120 * 1024"
  proof -
    from ok have "0 < file_size f" "file_size f \<le> 5242880" by simp_all
    then show ?thesis
      by (simp add: handleFileSelect_staged [OF im] clearErrors_def)
  qed
  from a b c show ?thesis by blast
qed

theorem size_limit_witness:
  "sublist ''image'' (file_type \<lparr>file_name = ''big.png'', file_type = ''image/png'', file_size = 5242881\<rparr>)
   \<and> file_size \<lparr>file_name = ''big.png'', file_type = ''image/png'', file_size = 5242881\<rparr> > 5120 * 1024
   \<and> errors (handleFileSelect
        (Some \<lparr>file_name = ''big.png'', file_type = ''image/png'', file_size = 5242881\<rparr>)
        (useForm alice)) Image = Some (FieldError ''Maximum file size is 5MB.'')
   \<and> selectedFile (handleFileSelect
        (Some \<lparr>file_name = ''big.png'', file_type = ''image/png'', file_size = 5242881\<rparr>)
        (useForm alice)) = selectedFile (useForm alice)
   \<and> sublist ''image'' (file_type \<lparr>file_name = ''max.png'', file_type = ''image/png'', file_size = 5242880\<rparr>)
   \<and> 0 < file_size \<lparr>file_name = ''max.png'', file_type = ''image/png'', file_size = 5242880\<rparr>
   \<and> file_size \<lparr>file_name = ''max.png'', file_type = ''image/png'', file_size = 5242880\<rparr> \<le> 5120 * 1024
   \<and> selectedFile (handleFileSelect
        (Some \<lparr>file_name = ''max.png'', file_type = ''image/png'', file_size = 5242880\<rparr>)
        (useForm alice))
       = Some \<lparr>file_name = ''max.png'', file_type = ''image/png'', file_size = 5242880\<rparr>
   \<and> errors (handleFileSelect
        (Some \<lparr>file_name = ''max.png'', file_type = ''image/png'', file_size = 5242880\<rparr>)
        (useForm alice)) Image = None"
proof -
  have "indexOf ''image/png'' ''image'' \<noteq> - 1" by (simp add: indexOf_def)
  then have i: "sublist ''image'' ''image/png''" by (simp add: indexOf_miss)
  then have a: "sublist ''image''
      (file_type \<lparr>file_name = ''big.png'', file_type = ''image/png'', file_size = 5242881\<rparr>)"
    and b: "sublist ''image''
      (file_type \<lparr>file_name = ''max.png'', file_type = ''image/png'', file_size = 5242880\<rparr>)"
    by simp_all
  have c: "file_size \<lparr>file_name = ''big.png'', file_type = ''image/png'', file_size = 5242881\<rparr>
      > 5120 * 1024"
    "0 < file_size \<lparr>file_name = ''max.png'', file_type = ''image/png'', file_size = 5242880\<rparr>"
    "file_size \<lparr>file_name = ''max.png'', file_type = ''image/png'', file_size = 5242880\<rparr>
      \<le> 5120 * 1024"
    by simp_all
  from size_limit [OF a, of "useForm alice"] size_limit [OF b, of "useForm alice"] a b c
  show ?thesis by blast
qed

text \<open>
  C10. The handler clears the image-field error first: its result does not depend on the
  error the image field had. When no file is chosen, or the chosen file has size 0, it does
  nothing else, whatever the file's type: no error is set and \<open>selectedFile\<close> is unchanged.
\<close>

theorem zero_byte_or_no_file:
  "handleFileSelect file_opt st = handleFileSelect file_opt (clearErrors Image st)
   \<and> (file_opt = None \<or> (\<exists>f. file_opt = Some f \<and> file_size f = 0) \<longrightarrow>
        handleFileSelect file_opt st = clearErrors Image st
        \<and> errors (handleFileSelect file_opt st) Image = None
        \<and> selectedFile (handleFileSelect file_opt st) = selectedFile st)"
proof -
  have idem: "clearErrors Image (clearErrors Image st) = clearErrors Image st"
    by (simp add: clearErrors_def)
  have "handleFileSelect file_opt st = handleFileSelect file_opt (clearErrors Image st)"
    by (simp add: handleFileSelect_def idem)
  moreover have "handleFileSelect file_opt st = clearErrors Image st"
    if "file_opt = None \<or> (\<exists>f. file_opt = Some f \<and> file_size f = 0)"
    using that by (auto simp: handleFileSelect_None handleFileSelect_empty)
  moreover have "errors (clearErrors Image st) Image = None"
    by (simp add: clearErrors_def)
  ultimately show ?thesis by simp
qed

theorem zero_byte_or_no_file_witness:
  "(\<exists>f. Some \<lparr>file_name = ''empty.png'', file_type = ''image/png'', file_size = 0\<rparr> = Some f
        \<and> file_size f = 0)
   \<and> errors (handleFileSelect
        (Some \<lparr>file_name = ''empty.png'', file_type = ''image/png'', file_size = 0\<rparr>)
        (setError Image '''' (useForm alice))) Image = None
   \<and> selectedFile (handleFileSelect
        (Some \<lparr>file_name = ''empty.png'', file_type = ''image/png'', file_size = 0\<rparr>)
        (setError Image '''' (useForm alice))) = selectedFile (setError Image '''' (useForm alice))
   \<and> errors (handleFileSelect None (setError Image '''' (useForm alice))) Image = None"
proof -
  have a: "\<exists>f. Some \<lparr>file_name = ''empty.png'', file_type = ''image/png'', file_size = 0\<rparr> = Some f
        \<and> file_size f = 0"
    by simp
  from zero_byte_or_no_file
    [of "Some \<lparr>file_name = ''empty.png'', file_type = ''image/png'', file_size = 0\<rparr>"
      "setError Image '''' (useForm alice)"]
    zero_byte_or_no_file [of None "setError Image '''' (useForm alice)"] a
  show ?thesis by blast
qed

section \<open>Validation of the name\<close>

text \<open>
  C5. A name of length 0 gets the error "Username is required."; a name longer than 13,
  the error "Username must be 13 characters or less."; a name of length 1 to 13, no error.
\<close>

theorem name_validation:
  "(length (name d) = 0 \<longrightarrow> resolver u d Name = Some (FieldError ''Username is required.''))
   \<and> (13 < length (name d) \<longrightarrow>
        resolver u d Name = Some (FieldError ''Username must be 13 characters or less.''))
   \<and> (1 \<le> length (name d) \<and> length (name d) \<le> 13 \<longrightarrow> resolver u d Name = None)"
  by (auto simp: resolver_def issues_def List.map_filter_def)

theorem name_validation_witness:
  "length (name \<lparr>name = '''', description = ''Hi'', image_url = ''https://x/a.png''\<rparr>) = 0
   \<and> resolver (\<lambda>s. True) \<lparr>name = '''', description = ''Hi'', image_url = ''https://x/a.png''\<rparr> Name
       = Some (FieldError ''Username is required.'')
   \<and> 13 < length (name \<lparr>name = ''abcdefghijklmn'', description = ''Hi'', image_url = ''https://x/a.png''\<rparr>)
   \<and> resolver (\<lambda>s. True) \<lparr>name = ''abcdefghijklmn'', description = ''Hi'', image_url = ''https://x/a.png''\<rparr> Name
       = Some (FieldError ''Username must be 13 characters or less.'')
   \<and> 1 \<le> length (name \<lparr>name = ''Alice'', description = ''Hi'', image_url = ''https://x/a.png''\<rparr>)
   \<and> length (name \<lparr>name = ''Alice'', description = ''Hi'', image_url = ''https://x/a.png''\<rparr>) \<le> 13
   \<and> resolver (\<lambda>s. True) \<lparr>name = ''Alice'', description = ''Hi'', image_url = ''https://x/a.png''\<rparr> Name
       = None"
  using name_validation [of "\<lparr>name = '''', description = ''Hi'', image_url = ''https://x/a.png''\<rparr>" "\<lambda>s. True"]
    name_validation [of "\<lparr>name = ''abcdefghijklmn'', description = ''Hi'', image_url = ''https://x/a.png''\<rparr>" "\<lambda>s. True"]
    name_validation [of "\<lparr>name = ''Alice'', description = ''Hi'', image_url = ''https://x/a.png''\<rparr>" "\<lambda>s. True"]
  by simp

section \<open>The submit handler\<close>

lemma trace_update_call:
  "trace (update_call net d st) = trace st @ [CallUpdateUser (to_payload d), toast_of net d]"
  by (simp add: update_call_def toast_of_def emit_def Let_def split: settled.split)

lemma trace_upload_failed:
  "trace (upload_failed st) = trace st @ [ToastError ''Couldn't upload your file.'']"
  by (simp add: upload_failed_def emit_def setError_def)

lemma errors_upload_failed: "errors (upload_failed st) Image = Some (FieldError '''')"
  by (simp add: upload_failed_def emit_def setError_def)

lemma errors_update_call [simp]: "errors (update_call net d st) = errors st"
  by (simp add: update_call_def emit_def Let_def split: settled.split)

lemma update_calls_append: "update_calls (xs @ ys) = update_calls xs @ update_calls ys"
  by (simp add: update_calls_def List.map_filter_def)

lemma onSubmit_no_file:
  "selectedFile st = None \<Longrightarrow>
   trace (onSubmit cfg net d st) = trace st @ [CallUpdateUser (to_payload d), toast_of net d]"
  by (simp add: onSubmit_def trace_update_call)

lemma onSubmit_no_file_errors:
  "selectedFile st = None \<Longrightarrow> errors (onSubmit cfg net d st) = errors st"
  by (simp add: onSubmit_def)

lemma onSubmit_ticket_rejected:
  assumes "selectedFile st = Some f" and "getPresignedUrl net = Rejected"
  shows "trace (onSubmit cfg net d st) =
           trace st @ [CallGetPresignedUrl, ToastError ''Couldn't upload your file.'']"
    and "errors (onSubmit cfg net d st) Image = Some (FieldError '''')"
  using assms by (simp_all add: onSubmit_def trace_upload_failed errors_upload_failed emit_def)

lemma onSubmit_put_rejected:
  assumes "selectedFile st = Some f" and "getPresignedUrl net = Fulfilled t"
    and "fetch net (url t) (file_type f) f = Rejected"
  shows "trace (onSubmit cfg net d st) =
           trace st @ [CallGetPresignedUrl, CallFetchPut (url t) (file_type f) f,
                       ToastError ''Couldn't upload your file.'']"
    and "errors (onSubmit cfg net d st) Image = Some (FieldError '''')"
  using assms by (simp_all add: onSubmit_def trace_upload_failed errors_upload_failed emit_def)

lemma onSubmit_put_answered:
  assumes "selectedFile st = Some f" and "getPresignedUrl net = Fulfilled t"
    and "fetch net (url t) (file_type f) f = Fulfilled r"
  shows "trace (onSubmit cfg net d st) =
           trace st @ [CallGetPresignedUrl, CallFetchPut (url t) (file_type f) f,
              CallUpdateUser (to_payload (d\<lparr>image_url := NEXT_PUBLIC_BUCKET_URL cfg @ ''/'' @ key t\<rparr>)),
              toast_of net (d\<lparr>image_url := NEXT_PUBLIC_BUCKET_URL cfg @ ''/'' @ key t\<rparr>)]"
    and "errors (onSubmit cfg net d st) = errors st"
  using assms by (simp_all add: onSubmit_def trace_update_call emit_def)

lemma emitted_same [simp]: "emitted st st = []"
  by (simp add: emitted_def)

lemma emitted_append: "trace st' = trace st @ xs \<Longrightarrow> emitted st st' = xs"
  by (simp add: emitted_def)

lemma image_to_payload [simp]: "image_url (to_payload d) = image_url d"
  by (simp add: to_payload_def)

text \<open>
  When the ticket request rejects, or the PUT rejects, the submission is aborted: the image
  field gets an error without message, the failure is notified and no update call is made.
\<close>

lemma rejection_aborts:
  assumes "selectedFile st = Some f"
    and "getPresignedUrl net = Rejected
         \<or> (\<exists>t. getPresignedUrl net = Fulfilled t \<and> fetch net (url t) (file_type f) f = Rejected)"
  shows "errors (onSubmit cfg net d st) Image = Some (FieldError '''')
         \<and> ToastError ''Couldn't upload your file.'' \<in> set (emitted st (onSubmit cfg net d st))
         \<and> update_calls (emitted st (onSubmit cfg net d st)) = []"
  using assms
  by (auto simp: emitted_def onSubmit_ticket_rejected onSubmit_put_rejected
      update_calls_def List.map_filter_def)

text \<open>
  C1 does not hold of a PUT that the storage refuses. The user stages a valid 2 MB JPEG and
  submits; the ticket is issued; the storage answers the PUT with status 403. The promise of
  \<^verbatim>\<open>fetch\<close> is fulfilled, nothing is thrown, and the handler goes on: the update
  endpoint is called with the URL of an object that was never stored, success is notified and
  the image field has no error.
\<close>

theorem upload_refused_by_storage:
  "selectedFile (run config [SelectFile (Some jpeg_2mb), Submit] (useForm alice)) = Some jpeg_2mb
   \<and> put_failed (fetch storage_refuses ''https://s3/put'' ''image/jpeg'' jpeg_2mb)
   \<and> trace (run config [SelectFile (Some jpeg_2mb), Submit, Settle storage_refuses] (useForm alice))
       = [CallGetPresignedUrl, CallFetchPut ''https://s3/put'' ''image/jpeg'' jpeg_2mb,
          CallUpdateUser \<lparr>name = ''Alice'', description = ''Hi'',
             image_url = ''https://bucket/k1'', setupCompleted = True\<rparr>,
          ToastSuccess ''Account settings saved!'']
   \<and> errors (run config [SelectFile (Some jpeg_2mb), Submit, Settle storage_refuses] (useForm alice))
        Image = None"
  by (simp add: run_def useForm_def alice_def jpeg_2mb_def config_def storage_refuses_def
      input_disabled_def submit_disabled_def thereAreErrors_def handleFileSelect_def
      clearErrors_def indexOf_def handleSubmit_def resolver_def issues_def List.map_filter_def
      no_errors_def onSubmit_def update_call_def emit_def to_payload_def response_ok_def)

subsection \<open>What the handlers leave alone\<close>

lemma formValues_onSubmit [simp]: "formValues (onSubmit cfg net d st) = formValues st"
  by (simp add: onSubmit_def update_call_def upload_failed_def emit_def setError_def Let_def
      split: option.split settled.split)

lemma isSubmitting_onSubmit [simp]: "isSubmitting (onSubmit cfg net d st) = isSubmitting st"
  by (simp add: onSubmit_def update_call_def upload_failed_def emit_def setError_def Let_def
      split: option.split settled.split)

lemma outstanding_onSubmit [simp]: "outstanding (onSubmit cfg net d st) = outstanding st"
  by (simp add: onSubmit_def update_call_def upload_failed_def emit_def setError_def Let_def
      split: option.split settled.split)

lemma formValues_handleSubmit [simp]: "formValues (handleSubmit cfg net st) = formValues st"
  by (simp add: handleSubmit_def Let_def)

lemma formValues_handleFileSelect [simp]:
  "formValues (handleFileSelect file_opt st) = formValues st"
  by (simp add: handleFileSelect_def setError_def clearErrors_def Let_def split: option.split)

text \<open>No event changes the image value of the form: it is the user's image URL throughout.\<close>

lemma image_fire: "image_url (formValues (fire cfg ev st)) = image_url (formValues st)"
  by (cases ev) (simp_all add: revalidate_def)

lemma image_run: "image_url (formValues (run cfg evs st)) = image_url (formValues st)"
  unfolding run_def by (induction evs arbitrary: st) (simp_all add: image_fire)

lemma image_reachable: "image_url (formValues (run cfg evs (useForm u))) = image_url u"
  by (simp add: image_run) (simp add: useForm_def)

lemma handleSubmit_valid:
  "no_errors (resolver (isUrl cfg) (formValues st)) \<Longrightarrow>
   trace (handleSubmit cfg net st)
     = trace (onSubmit cfg net (formValues st) (st\<lparr>errors := resolver (isUrl cfg) (formValues st)\<rparr>))"
  by (simp add: handleSubmit_def Let_def)

lemma handleSubmit_invalid:
  "\<not> no_errors (resolver (isUrl cfg) (formValues st)) \<Longrightarrow>
   trace (handleSubmit cfg net st) = trace st"
  by (simp add: handleSubmit_def Let_def)

text \<open>
  C2. On a page reached from the first render, when the settling of a submission calls the
  update endpoint with a payload \<open>p\<close>: either no file is staged and the image of \<open>p\<close> is
  the user's image URL, or a file is staged, the ticket request was fulfilled with a ticket
  \<open>t\<close>, and the image of \<open>p\<close> is the bucket URL, a slash and the key of \<open>t\<close>. The image
  is a string built from these alone; the file does not enter it.
\<close>

theorem update_image_origin:
  "st = run cfg evs (useForm u) \<Longrightarrow>
   CallUpdateUser p \<in> set (emitted st (fire cfg (Settle net) st)) \<Longrightarrow>
     (selectedFile st = None \<and> image_url p = image_url u)
     \<or> (\<exists>f t. selectedFile st = Some f \<and> getPresignedUrl net = Fulfilled t
              \<and> image_url p = NEXT_PUBLIC_BUCKET_URL cfg @ ''/'' @ key t)"
proof -
  assume r: "st = run cfg evs (useForm u)"
  assume p: "CallUpdateUser p \<in> set (emitted st (fire cfg (Settle net) st))"
  let ?es = "resolver (isUrl cfg) (formValues st)"
  let ?st1 = "st\<lparr>errors := ?es\<rparr>"
  have img: "image_url (formValues st) = image_url u"
    unfolding r by (rule image_reachable)
  from p have out: "outstanding st \<noteq> 0"
    by (cases "outstanding st = 0") simp_all
  with p have p1: "CallUpdateUser p \<in> set (emitted st (handleSubmit cfg net st))" by simp
  have valid: "no_errors ?es"
  proof (rule ccontr)
    assume "\<not> no_errors ?es"
    then have "trace (handleSubmit cfg net st) = trace st" by (rule handleSubmit_invalid)
    with p1 show False by (simp add: emitted_def)
  qed
  then have tr: "trace (handleSubmit cfg net st) = trace (onSubmit cfg net (formValues st) ?st1)"
    by (rule handleSubmit_valid)
  show ?thesis
  proof (cases "selectedFile st")
    case None
    then have "trace (onSubmit cfg net (formValues st) ?st1)
      = trace st @ [CallUpdateUser (to_payload (formValues st)), toast_of net (formValues st)]"
      by (simp add: onSubmit_no_file)
    with tr have "emitted st (handleSubmit cfg net st)
      = [CallUpdateUser (to_payload (formValues st)), toast_of net (formValues st)]"
      by (simp add: emitted_append)
    with p1 have "p = to_payload (formValues st)"
      by (auto simp: toast_of_def split: settled.splits)
    with None img show ?thesis by simp
  next
    case (Some f)
    then have sf: "selectedFile ?st1 = Some f" by simp
    show ?thesis
    proof (cases "getPresignedUrl net")
      case Rejected
      from onSubmit_ticket_rejected(1) [OF sf Rejected, of cfg "formValues st"] tr
      have "emitted st (handleSubmit cfg net st)
        = [CallGetPresignedUrl, ToastError ''Couldn't upload your file.'']"
        by (simp add: emitted_append)
      with p1 show ?thesis by simp
    next
      case (Fulfilled t)
      show ?thesis
      proof (cases "fetch net (url t) (file_type f) f")
        case Rejected
        from onSubmit_put_rejected(1) [OF sf Fulfilled Rejected, of cfg "formValues st"] tr
        have "emitted st (handleSubmit cfg net st)
          = [CallGetPresignedUrl, CallFetchPut (url t) (file_type f) f,
             ToastError ''Couldn't upload your file.'']"
          by (simp add: emitted_append)
        with p1 show ?thesis by simp
      next
        case (Fulfilled r')
        let ?d = "(formValues st)\<lparr>image_url := NEXT_PUBLIC_BUCKET_URL cfg @ ''/'' @ key t\<rparr>"
        from onSubmit_put_answered(1) [OF sf \<open>getPresignedUrl net = Fulfilled t\<close> Fulfilled,
            of cfg "formValues st"] tr
        have "emitted st (handleSubmit cfg net st)
          = [CallGetPresignedUrl, CallFetchPut (url t) (file_type f) f,
             CallUpdateUser (to_payload ?d), toast_of net ?d]"
          by (simp add: emitted_append)
        with p1 have "p = to_payload ?d"
          by (auto simp: toast_of_def split: settled.splits)
        then have "image_url p = NEXT_PUBLIC_BUCKET_URL cfg @ ''/'' @ key t" by simp
        with Some \<open>getPresignedUrl net = Fulfilled t\<close> show ?thesis by blast
      qed
    qed
  qed
qed

lemma staged_page:
  "run config [SelectFile (Some jpeg_2mb), Submit] (useForm alice)
     = (useForm alice)\<lparr>selectedFile := Some jpeg_2mb, isSubmitting := True, outstanding := 1\<rparr>"
  by (simp add: run_def useForm_def jpeg_2mb_def input_disabled_def submit_disabled_def
      thereAreErrors_def handleFileSelect_def clearErrors_def indexOf_def)

lemma staged_settled:
  "trace (fire config (Settle all_well)
       ((useForm alice)\<lparr>selectedFile := Some jpeg_2mb, isSubmitting := True, outstanding := 1\<rparr>))
     = [CallGetPresignedUrl, CallFetchPut ''https://s3/put'' ''image/jpeg'' jpeg_2mb,
        CallUpdateUser \<lparr>name = ''Alice'', description = ''Hi'',
          image_url = ''https://bucket/k1'', setupCompleted = True\<rparr>,
        ToastSuccess ''Account settings saved!'']"
  by (simp add: useForm_def alice_def jpeg_2mb_def config_def all_well_def
      handleSubmit_def resolver_def issues_def List.map_filter_def
      no_errors_def onSubmit_def update_call_def emit_def to_payload_def)

theorem update_image_origin_witness:
  "CallUpdateUser \<lparr>name = ''Alice'', description = ''Hi'',
       image_url = ''https://bucket/k1'', setupCompleted = True\<rparr>
     \<in> set (emitted (run config [SelectFile (Some jpeg_2mb), Submit] (useForm alice))
          (fire config (Settle all_well)
             (run config [SelectFile (Some jpeg_2mb), Submit] (useForm alice))))
   \<and> ((selectedFile (run config [SelectFile (Some jpeg_2mb), Submit] (useForm alice)) = None
        \<and> image_url \<lparr>name = ''Alice'', description = ''Hi'',
             image_url = ''https://bucket/k1'', setupCompleted = True\<rparr> = image_url alice)
      \<or> (\<exists>f t. selectedFile (run config [SelectFile (Some jpeg_2mb), Submit] (useForm alice))
                  = Some f
             \<and> getPresignedUrl all_well = Fulfilled t
             \<and> image_url \<lparr>name = ''Alice'', description = ''Hi'',
                  image_url = ''https://bucket/k1'', setupCompleted = True\<rparr>
                 = NEXT_PUBLIC_BUCKET_URL config @ ''/'' @ key t))"
proof -
  have a: "CallUpdateUser \<lparr>name = ''Alice'', description = ''Hi'',
       image_url = ''https://bucket/k1'', setupCompleted = True\<rparr>
     \<in> set (emitted (run config [SelectFile (Some jpeg_2mb), Submit] (useForm alice))
          (fire config (Settle all_well)
             (run config [SelectFile (Some jpeg_2mb), Submit] (useForm alice))))"
    unfolding staged_page emitted_def staged_settled by (simp add: useForm_def)
  from a update_image_origin [OF refl a] show ?thesis by (rule conjI)
qed

text \<open>
  C3. A submission with no staged file and form values that pass validation adds to the
  trace exactly the update call with name, description and image equal to the form values
  and \<open>setupCompleted\<close> true, followed by the success notification when the call is
  fulfilled and by the generic failure notification when it rejects.
\<close>

theorem update_without_file:
  "selectedFile st = None \<Longrightarrow> no_errors (resolver (isUrl cfg) (formValues st)) \<Longrightarrow>
   trace (handleSubmit cfg net st) =
     trace st @
       [CallUpdateUser \<lparr>name = name (formValues st), description = description (formValues st),
          image_url = image_url (formValues st), setupCompleted = True\<rparr>,
        (case updateUser net \<lparr>name = name (formValues st), description = description (formValues st),
                image_url = image_url (formValues st), setupCompleted = True\<rparr> of
           Fulfilled x \<Rightarrow> ToastSuccess ''Account settings saved!''
         | Rejected \<Rightarrow> ToastError ''Something went wrong!'')]"
  by (simp add: handleSubmit_valid onSubmit_no_file toast_of_def to_payload_def)

theorem update_without_file_witness:
  "selectedFile (useForm alice) = None
   \<and> no_errors (resolver (isUrl config) (formValues (useForm alice)))
   \<and> trace (handleSubmit config all_well (useForm alice)) =
       [CallUpdateUser \<lparr>name = ''Alice'', description = ''Hi'',
          image_url = ''https://cdn/alice.png'', setupCompleted = True\<rparr>,
        ToastSuccess ''Account settings saved!'']"
proof -
  have a: "selectedFile (useForm alice) = None" by (simp add: useForm_def)
  have b: "no_errors (resolver (isUrl config) (formValues (useForm alice)))"
    by (simp add: useForm_def alice_def config_def no_errors_def resolver_def issues_def
        List.map_filter_def)
  have c: "formValues (useForm alice) =
      \<lparr>name = ''Alice'', description = ''Hi'', image_url = ''https://cdn/alice.png''\<rparr>"
    "trace (useForm alice) = []"
    by (simp_all add: useForm_def alice_def)
  from update_without_file [OF a b, of all_well] a b show ?thesis
    by (simp add: c all_well_def)
qed

subsection \<open>Resubmitting\<close>

lemma no_errors_thereAreErrors: "thereAreErrors st \<longleftrightarrow> \<not> no_errors (errors st)"
  by (auto simp: thereAreErrors_def no_errors_def)

lemma one_round:
  assumes "ready cfg st"
  shows "ready cfg (fire cfg (Settle net) (fire cfg Submit st))"
    and "formValues (fire cfg (Settle net) (fire cfg Submit st)) = formValues st"
    and "trace (fire cfg (Settle net) (fire cfg Submit st))
           = trace st @ [CallUpdateUser (to_payload (formValues st)), toast_of net (formValues st)]"
proof -
  let ?s1 = "st\<lparr>isSubmitting := True, outstanding := Suc (outstanding st)\<rparr>"
  let ?es = "resolver (isUrl cfg) (formValues st)"
  from assms have sf: "selectedFile st = None" and v: "no_errors ?es"
    and en: "\<not> submit_disabled st" and o: "outstanding st = 0"
    by (simp_all add: ready_def)
  from en have f1: "fire cfg Submit st = ?s1" by simp
  have f2: "fire cfg (Settle net) ?s1 = handleSubmit cfg net ?s1" by simp
  have sf1: "selectedFile (?s1\<lparr>errors := ?es\<rparr>) = None" using sf by simp
  have h: "handleSubmit cfg net ?s1 =
      (onSubmit cfg net (formValues st) (?s1\<lparr>errors := ?es\<rparr>))
        \<lparr>isSubmitted := True, isSubmitting := False, outstanding := 0\<rparr>"
    using v o by (simp add: handleSubmit_def Let_def)
  have e: "errors (onSubmit cfg net (formValues st) (?s1\<lparr>errors := ?es\<rparr>)) = ?es"
    using onSubmit_no_file_errors [OF sf1] by simp
  have t: "trace (onSubmit cfg net (formValues st) (?s1\<lparr>errors := ?es\<rparr>))
      = trace st @ [CallUpdateUser (to_payload (formValues st)), toast_of net (formValues st)]"
    using onSubmit_no_file [OF sf1] by simp
  show "formValues (fire cfg (Settle net) (fire cfg Submit st)) = formValues st"
    unfolding f1 f2 h by simp
  show "trace (fire cfg (Settle net) (fire cfg Submit st))
           = trace st @ [CallUpdateUser (to_payload (formValues st)), toast_of net (formValues st)]"
    unfolding f1 f2 h using t by simp
  show "ready cfg (fire cfg (Settle net) (fire cfg Submit st))"
    unfolding f1 f2 h using sf v e
    by (simp add: ready_def submit_disabled_def no_errors_thereAreErrors)
qed

lemma rounds:
  "ready cfg st \<Longrightarrow>
   trace (run cfg (concat (map (\<lambda>net. [Submit, Settle net]) nets)) st)
     = trace st @ concat (map (\<lambda>net. [CallUpdateUser (to_payload (formValues st)),
                                        toast_of net (formValues st)]) nets)"
proof (induction nets arbitrary: st)
  case Nil
  then show ?case by (simp add: run_def)
next
  case (Cons net nets)
  let ?st' = "fire cfg (Settle net) (fire cfg Submit st)"
  from one_round [OF Cons.prems, of net]
  have r: "ready cfg ?st'" and fv: "formValues ?st' = formValues st"
    and tr: "trace ?st' = trace st @ [CallUpdateUser (to_payload (formValues st)),
                toast_of net (formValues st)]"
    by blast+
  have "run cfg (concat (map (\<lambda>net. [Submit, Settle net]) (net # nets))) st
      = run cfg (concat (map (\<lambda>net. [Submit, Settle net]) nets)) ?st'"
    by (simp add: run_def)
  with Cons.IH [OF r] fv tr show ?case by simp
qed

lemma update_calls_rounds:
  "update_calls (concat (map (\<lambda>net. [CallUpdateUser p, toast_of net d]) nets))
     = replicate (length nets) p"
  by (induction nets)
    (simp_all add: update_calls_def List.map_filter_def toast_of_def split: settled.split)

text \<open>
  C8. From a page with valid values, no staged file, no error and nothing in flight,
  submitting any number of times, whatever the network answers each time, sends the same
  payload to the update endpoint every time.
\<close>

theorem resubmit_same_payload:
  "selectedFile st = None \<Longrightarrow> no_errors (resolver (isUrl cfg) (formValues st)) \<Longrightarrow>
   \<not> submit_disabled st \<Longrightarrow> outstanding st = 0 \<Longrightarrow>
   update_calls (emitted st (run cfg (concat (map (\<lambda>net. [Submit, Settle net]) nets)) st))
     = replicate (length nets)
         \<lparr>name = name (formValues st), description = description (formValues st),
          image_url = image_url (formValues st), setupCompleted = True\<rparr>"
proof -
  assume "selectedFile st = None" "no_errors (resolver (isUrl cfg) (formValues st))"
    "\<not> submit_disabled st" "outstanding st = 0"
  then have "ready cfg st" by (simp add: ready_def)
  then have "emitted st (run cfg (concat (map (\<lambda>net. [Submit, Settle net]) nets)) st)
      = concat (map (\<lambda>net. [CallUpdateUser (to_payload (formValues st)),
                                        toast_of net (formValues st)]) nets)"
    by (simp add: rounds emitted_append)
  then show ?thesis by (simp add: update_calls_rounds) (simp add: to_payload_def)
qed

theorem resubmit_same_payload_witness:
  "selectedFile (useForm alice) = None
   \<and> no_errors (resolver (isUrl config) (formValues (useForm alice)))
   \<and> \<not> submit_disabled (useForm alice)
   \<and> outstanding (useForm alice) = 0
   \<and> update_calls (emitted (useForm alice)
        (run config [Submit, Settle all_well, Submit, Settle storage_refuses, Submit, Settle all_well]
           (useForm alice)))
       = [\<lparr>name = ''Alice'', description = ''Hi'', image_url = ''https://cdn/alice.png'',
           setupCompleted = True\<rparr>,
          \<lparr>name = ''Alice'', description = ''Hi'', image_url = ''https://cdn/alice.png'',
           setupCompleted = True\<rparr>,
          \<lparr>name = ''Alice'', description = ''Hi'', image_url = ''https://cdn/alice.png'',
           setupCompleted = True\<rparr>]"
proof -
  have a: "selectedFile (useForm alice) = None" by (simp add: useForm_def)
  have b: "no_errors (resolver (isUrl config) (formValues (useForm alice)))"
    by (simp add: useForm_def alice_def config_def no_errors_def resolver_def issues_def
        List.map_filter_def)
  have c: "\<not> submit_disabled (useForm alice)"
    by (simp add: useForm_def submit_disabled_def thereAreErrors_def)
  have d: "outstanding (useForm alice) = 0" by (simp add: useForm_def)
  have e: "formValues (useForm alice) =
      \<lparr>name = ''Alice'', description = ''Hi'', image_url = ''https://cdn/alice.png''\<rparr>"
    by (simp add: useForm_def alice_def)
  have n: "replicate (length [all_well, storage_refuses, all_well]) x = [x, x, x]" for x :: payload
    by (simp add: numeral_3_eq_3)
  from resubmit_same_payload [OF a b c d, of "[all_well, storage_refuses, all_well]"] a b c d
  show ?thesis unfolding n by (simp add: e)
qed

section \<open>The submit control\<close>

lemma sane_handleFileSelect: "sane st \<Longrightarrow> sane (handleFileSelect file_opt st)"
  by (simp add: sane_def handleFileSelect_def setError_def clearErrors_def Let_def
      split: option.split)

lemma sane_handleSubmit: "sane st \<Longrightarrow> outstanding st \<noteq> 0 \<Longrightarrow> sane (handleSubmit cfg net st)"
  by (simp add: sane_def handleSubmit_def Let_def split: if_splits)

lemma sane_fire: "sane st \<Longrightarrow> sane (fire cfg ev st)"
proof (cases ev)
  case (SelectFile file_opt)
  assume "sane st"
  then show ?thesis using SelectFile by (simp add: sane_handleFileSelect)
next
  case Submit
  assume "sane st"
  then show ?thesis using Submit by (auto simp: sane_def submit_disabled_def)
next
  case (Settle net)
  assume "sane st"
  then show ?thesis using Settle by (simp add: sane_handleSubmit)
qed (simp_all add: sane_def revalidate_def)

lemma sane_run: "sane st \<Longrightarrow> sane (run cfg evs st)"
  unfolding run_def by (induction evs arbitrary: st) (simp_all add: sane_fire)

lemma sane_reachable: "sane (run cfg evs (useForm u))"
  by (rule sane_run) (simp add: sane_def useForm_def)

lemma thereAreErrors_iff: "thereAreErrors st \<longleftrightarrow> (\<exists>f. errors st f \<noteq> None)"
proof
  assume "thereAreErrors st"
  then show "\<exists>f. errors st f \<noteq> None" by (auto simp: thereAreErrors_def split: if_splits)
next
  assume "\<exists>f. errors st f \<noteq> None"
  then obtain f where f: "errors st f \<noteq> None" ..
  then show "thereAreErrors st" by (cases f) (simp_all add: thereAreErrors_def)
qed

lemma sane_bounds: "sane st \<Longrightarrow> outstanding st \<le> 1 \<and> (isSubmitting st \<longleftrightarrow> outstanding st = 1)"
  by (cases "isSubmitting st") (simp_all add: sane_def)

lemma submit_starts:
  "outstanding st < outstanding (fire cfg Submit st) \<Longrightarrow> \<not> submit_disabled st"
  by (cases "submit_disabled st") simp_all

text \<open>
  C9. On every page reached from the first render, the submit control is disabled exactly
  when a submission is in flight or some field has an error; at most one submission is
  outstanding, and it is outstanding exactly when \<open>isSubmitting\<close> holds; and when
  \<open>Submit\<close> does start a submission, none was outstanding and no field had an error.
\<close>

theorem submit_guard:
  "st = run cfg evs (useForm u) \<Longrightarrow>
     (submit_disabled st \<longleftrightarrow> isSubmitting st \<or> (\<exists>f. errors st f \<noteq> None))
     \<and> outstanding st \<le> 1
     \<and> (isSubmitting st \<longleftrightarrow> outstanding st = 1)
     \<and> (outstanding st < outstanding (fire cfg Submit st) \<longrightarrow>
          \<not> isSubmitting st \<and> outstanding st = 0 \<and> (\<forall>f. errors st f = None))"
proof -
  assume r: "st = run cfg evs (useForm u)"
  have s: "sane st" unfolding r by (rule sane_reachable)
  have d: "submit_disabled st \<longleftrightarrow> isSubmitting st \<or> (\<exists>f. errors st f \<noteq> None)"
    by (simp add: submit_disabled_def thereAreErrors_iff)
  have b: "outstanding st \<le> 1 \<and> (isSubmitting st \<longleftrightarrow> outstanding st = 1)"
    using s by (rule sane_bounds)
  have g: "\<not> isSubmitting st \<and> outstanding st = 0 \<and> (\<forall>f. errors st f = None)"
    if "outstanding st < outstanding (fire cfg Submit st)"
  proof -
    from that have n: "\<not> submit_disabled st" by (rule submit_starts)
    with d have i: "\<not> isSubmitting st" and e: "\<forall>f. errors st f = None" by simp_all
    from i s have "outstanding st = 0" by (simp add: sane_def)
    with i e show ?thesis by simp
  qed
  from d b g show ?thesis by blast
qed

lemma bob_page:
  "run config [ChangeName ''Bob''] (useForm alice)
     = (useForm alice)\<lparr>formValues := (formValues (useForm alice))\<lparr>name := ''Bob''\<rparr>\<rparr>"
  by (simp add: run_def input_disabled_def revalidate_def) (simp add: useForm_def)

theorem submit_guard_witness:
  "outstanding (run config [ChangeName ''Bob''] (useForm alice))
     < outstanding (fire config Submit (run config [ChangeName ''Bob''] (useForm alice)))
   \<and> \<not> isSubmitting (run config [ChangeName ''Bob''] (useForm alice))
   \<and> outstanding (run config [ChangeName ''Bob''] (useForm alice)) = 0
   \<and> (\<forall>f. errors (run config [ChangeName ''Bob''] (useForm alice)) f = None)"
proof -
  have a: "outstanding (run config [ChangeName ''Bob''] (useForm alice))
     < outstanding (fire config Submit (run config [ChangeName ''Bob''] (useForm alice)))"
    unfolding bob_page
    by (simp add: submit_disabled_def thereAreErrors_def) (simp add: useForm_def)
  from submit_guard [OF refl, of config "[ChangeName ''Bob'']" alice] a
  show ?thesis by blast
qed

section \<open>The session gate: no session, no user\<close>

text \<open>
  C4. When the session resolution yields no session, the handler of the settings route
  returns the redirect to the login destination, and not page props: no user record is
  handed to the page. The other version of the handler tests the destination it is given
  for truthiness: it returns the redirect when the login destination is not the empty
  string, and in no case props that hold a user.
\<close>

theorem no_session_redirects:
  "getServerAuthSession getServerSession context = None \<Longrightarrow>
     getServerSideProps getServerSession fetchUser login context = Redirect login False
     \<and> (\<forall>u. getServerSideProps getServerSession fetchUser login context \<noteq> Props u)
     \<and> (login \<noteq> [] \<longrightarrow>
          getServerSideProps_useAuth getServerSession fetchUser login context
            = Redirect login False)
     \<and> (\<forall>u. getServerSideProps_useAuth getServerSession fetchUser login context
            \<noteq> Props (Some u))"
  by (simp add: getServerSideProps_def authRequired_def getServerSideProps_useAuth_def
      useAuth_def)

theorem no_session_redirects_witness:
  "getServerAuthSession (\<lambda>req res. if req = ''session-token=1'' then Some (1::nat) else None)
       (''no cookie'', ()) = None
   \<and> ''/api/auth/signin'' \<noteq> []
   \<and> getServerSideProps (\<lambda>req res. if req = ''session-token=1'' then Some (1::nat) else None)
        (\<lambda>s. alice) ''/api/auth/signin'' (''no cookie'', ()) = Redirect ''/api/auth/signin'' False
   \<and> getServerSideProps_useAuth
        (\<lambda>req res. if req = ''session-token=1'' then Some (1::nat) else None)
        (\<lambda>s. alice) ''/api/auth/signin'' (''no cookie'', ()) = Redirect ''/api/auth/signin'' False"
proof -
  have a: "getServerAuthSession
      (\<lambda>req res. if req = ''session-token=1'' then Some (1::nat) else None)
      (''no cookie'', ()) = None"
    by (simp add: getServerAuthSession_def)
  have b: "''/api/auth/signin'' \<noteq> []" by simp
  from no_session_redirects [OF a, of "\<lambda>s. alice" "''/api/auth/signin''"] a b
  show ?thesis by blast
qed

end
